theory Spec2Isabelle
  imports Complex_Main
begin

section \<open>Data model of \<open>ext/multiprocessing.py\<close>\<close>

text \<open>
  A \<open>datetime\<close> is a point on one time line, counted in microseconds (the resolution of
  Python's \<open>datetime\<close>); all of them are naive, as \<open>datetime.now()\<close> gives them, so any
  two can be subtracted.  The difference of two of them is a \<open>timedelta\<close>, and
  \<open>total_seconds()\<close> divides its microseconds by \<open>10^6\<close>; the quotient is kept exact
  (a real number), so the model says nothing about the rounding of the resulting float.
\<close>

type_synonym datetime = int

record JobStats =
  submitted_at :: datetime
  started_at :: "datetime option"
  finished_at :: "datetime option"

definition total_seconds :: "int \<Rightarrow> real" where
  "total_seconds td = real_of_int td / 1000000"

text \<open>The property \<open>JobStats.elapsed\<close>.\<close>

definition elapsed :: "JobStats \<Rightarrow> real" where
  "elapsed self =
     (case started_at self of
        None \<Rightarrow> 0
      | Some s \<Rightarrow>
          (case finished_at self of
             None \<Rightarrow> 0
           | Some f \<Rightarrow> total_seconds (f - s)))"

text \<open>
  Python objects.  A callable is held by reference: \<open>target\<close> is the name under which the
  callable is found (which is also how it crosses the process boundary), and
  \<open>dunder_name\<close> is its attribute \<open>__name__\<close>, which a function has and an object such as
  a \<open>functools.partial\<close> lacks.  An environment of type \<open>env\<close> says what calling a
  callable on a list of arguments does: it returns a value (\<open>Inr\<close>) or raises (\<open>Inl\<close>).
  The exceptions are the ones this module raises or names, those of the pool and of the
  event loop, and some a submitted function may raise.  \<open>KeyboardInterrupt\<close>,
  \<open>SystemExit\<close> and \<open>CancelledError\<close> derive from \<open>BaseException\<close> only; every other one
  is an \<open>Exception\<close>.

  \<open>JobFailedError(job, e)\<close> keeps a reference to the job it is built for.  Values have no
  identity, so the error carries the job as it is when the error is built.
\<close>

datatype callable = Callable (target: string) (dunder_name: "string option")

datatype pyval = NoneV | IntV int | StrV string | JobV job
  and job = Job (jobid: int) (func: callable) (args: "pyval list")
                (stats: "JobStats option") (result: pyval) (error: "exn option")
  and exn =
      AssertionError string
    | AttributeError string
    | ValueError string
    | TypeError string
    | RuntimeError string
    | InvalidStateError string
    | MaybeEncodingError string
    | StopIteration
    | KeyboardInterrupt
    | SystemExit
    | CancelledError
    | JobFailedError (job: job) (inner_error: exn)

type_synonym env = "callable \<Rightarrow> pyval list \<Rightarrow> exn + pyval"

text \<open>\<open>isinstance(e, Exception)\<close> and \<open>isinstance(e, JobFailedError)\<close>.\<close>

fun is_Exception :: "exn \<Rightarrow> bool" where
  "is_Exception KeyboardInterrupt = False"
| "is_Exception SystemExit = False"
| "is_Exception CancelledError = False"
| "is_Exception _ = True"

fun is_JobFailedError :: "exn \<Rightarrow> bool" where
  "is_JobFailedError (JobFailedError j e) = True"
| "is_JobFailedError _ = False"

text \<open>\<open>Job.__init__\<close>, and the three attribute assignments the module makes on a job.\<close>

definition Job_init :: "int \<Rightarrow> callable \<Rightarrow> pyval list \<Rightarrow> job" where
  "Job_init jid f xs = Job jid f xs None NoneV None"

fun set_stats :: "job \<Rightarrow> JobStats option \<Rightarrow> job" where
  "set_stats (Job i f xs st r e) st' = Job i f xs st' r e"

fun set_result :: "job \<Rightarrow> pyval \<Rightarrow> job" where
  "set_result (Job i f xs st r e) r' = Job i f xs st r' e"

fun set_error :: "job \<Rightarrow> exn option \<Rightarrow> job" where
  "set_error (Job i f xs st r e) e' = Job i f xs st r e'"

text \<open>
  The property \<open>Job.name\<close> reads \<open>self.func.__name__\<close>, which raises \<open>AttributeError\<close>
  when the callable has no such attribute, and \<open>Job.__str__\<close> formats the id, in
  decimal, and the name.
\<close>

definition no_name :: string where
  "no_name = ''object has no attribute __name__''"

definition Job_name :: "job \<Rightarrow> exn + string" where
  "Job_name self =
     (case dunder_name (func self) of
        None \<Rightarrow> Inl (AttributeError no_name)
      | Some n \<Rightarrow> Inr n)"

definition digit_char :: "nat \<Rightarrow> char" where
  "digit_char d = ''0123456789'' ! d"

function str_nat :: "nat \<Rightarrow> string" where
  "str_nat n = (if n < 10 then [digit_char n] else str_nat (n div 10) @ [digit_char (n mod 10)])"
  by pat_completeness auto
termination
  by (relation "measure id") auto

definition str_int :: "int \<Rightarrow> string" where
  "str_int i = (if i < 0 then CHR ''-'' # str_nat (nat (- i)) else str_nat (nat i))"

definition Job_str :: "job \<Rightarrow> exn + string" where
  "Job_str self =
     (case Job_name self of
        Inl e \<Rightarrow> Inl e
      | Inr n \<Rightarrow> Inr (''Job '' @ str_int (jobid self) @ '' - '' @ n))"

text \<open>
  \<open>datetime.now()\<close> reads the wall clock.  The world holds the readings the clock will
  give, by the number of the call, and the number of calls made so far.
\<close>

record world =
  clock :: "nat \<Rightarrow> datetime"
  ticks :: nat

definition datetime_now :: "world \<Rightarrow> datetime \<times> world" where
  "datetime_now w = (clock w (ticks w), w\<lparr>ticks := Suc (ticks w)\<rparr>)"

definition not_submitted :: string where
  "not_submitted = ''job was not properly submitted to worker pool''"

section \<open>The worker entry point\<close>

text \<open>
  \<open>evaluate_job\<close> mutates the job it is given and returns that same object.  The model
  returns the job after the call, the exception that leaves the function (\<open>None\<close> when it
  returns, and then the job is the return value) and the world.  The three clauses of the
  \<open>try\<close> statement are three functions, run in order.
\<close>

definition try_body :: "env \<Rightarrow> job \<Rightarrow> world \<Rightarrow> job \<times> exn option \<times> world" where
  "try_body call j w =
     (case stats j of
        None \<Rightarrow> (j, Some (AssertionError not_submitted), w)
      | Some st \<Rightarrow>
          (let (t, w1) = datetime_now w;
               j1 = set_stats j (Some (st\<lparr>started_at := Some t\<rparr>))
           in case call (func j1) (args j1) of
                Inr v \<Rightarrow> (set_result j1 v, None, w1)
              | Inl e \<Rightarrow> (j1, Some e, w1)))"

definition except_clause :: "job \<times> exn option \<times> world \<Rightarrow> job \<times> exn option \<times> world" where
  "except_clause s =
     (case s of
        (j, None, w) \<Rightarrow> (j, None, w)
      | (j, Some e, w) \<Rightarrow>
          (if is_Exception e then (set_error j (Some (JobFailedError j e)), None, w)
           else (j, Some e, w)))"

definition finally_clause :: "job \<times> exn option \<times> world \<Rightarrow> job \<times> exn option \<times> world" where
  "finally_clause s =
     (case s of
        (j, x, w) \<Rightarrow>
          (case stats j of
             None \<Rightarrow> (j, x, w)
           | Some st \<Rightarrow>
               (let (t, w1) = datetime_now w
                in (set_stats j (Some (st\<lparr>finished_at := Some t\<rparr>)), x, w1))))"

definition evaluate_job :: "env \<Rightarrow> job \<Rightarrow> world \<Rightarrow> job \<times> exn option \<times> world" where
  "evaluate_job call j w = finally_clause (except_clause (try_body call j w))"

section \<open>Handles\<close>

text \<open>
  What a call gives back: a value, an exception, or, for a call that waits on something
  that has not happened yet, nothing so far.
\<close>

datatype 'a outcome = Returned 'a | Raised exn | Blocked

text \<open>
  \<open>multiprocessing.pool.AsyncResult\<close>, as far as \<open>get()\<close> shows it: not ready, or ready
  with the value the task returned (\<open>Inr\<close>) or the exception it raised (\<open>Inl\<close>).
  \<open>get()\<close> waits while the result is not ready, then returns the value or raises the
  exception.
\<close>

datatype AsyncResult = NotReady | Ready "exn + pyval"

fun AsyncResult_get :: "AsyncResult \<Rightarrow> pyval outcome" where
  "AsyncResult_get NotReady = Blocked"
| "AsyncResult_get (Ready (Inr v)) = Returned v"
| "AsyncResult_get (Ready (Inl e)) = Raised e"

text \<open>
  \<open>JobHandle\<close>: the fields \<open>_job\<close> and \<open>_pool_task\<close>.  The constructor stores \<open>None\<close>
  (under a cast) as the pool task.
\<close>

record JobHandle =
  hjob :: job
  pool_task :: "AsyncResult option"

definition JobHandle_init :: "job \<Rightarrow> JobHandle" where
  "JobHandle_init j = \<lparr>hjob = j, pool_task = None\<rparr>"

definition job_id :: "'a JobHandle_scheme \<Rightarrow> int" where
  "job_id self = jobid (hjob self)"

definition JobHandle_stats :: "'a JobHandle_scheme \<Rightarrow> exn + JobStats" where
  "JobHandle_stats self =
     (case stats (hjob self) of
        None \<Rightarrow> Inl (AssertionError not_submitted)
      | Some st \<Rightarrow> Inr st)"

definition join :: "'a JobHandle_scheme \<Rightarrow> pyval outcome" where
  "join self =
     (case pool_task self of
        None \<Rightarrow> Raised (AssertionError not_submitted)
      | Some t \<Rightarrow> AsyncResult_get t)"

definition JobHandle_str :: "'a JobHandle_scheme \<Rightarrow> exn + string" where
  "JobHandle_str self =
     (case Job_str (hjob self) of
        Inl e \<Rightarrow> Inl e
      | Inr s \<Rightarrow> Inr (''(Handle) '' @ s))"

text \<open>
  Both callbacks end with a \<open>log.debug\<close> call whose message is an f-string that formats
  \<open>self\<close> and then \<open>self.stats.elapsed\<close>.  The f-string is evaluated, in that order,
  whatever the log level is, so the call raises when \<open>str(self)\<close> does and, if that goes
  through, when \<open>self.stats\<close> does; formatting the elapsed time cannot fail, and the text
  that is logged is not kept.  A callback gives the handle after the call and the
  exception that leaves it, if any.
\<close>

definition log_timing :: "'a JobHandle_scheme \<Rightarrow> exn option" where
  "log_timing self =
     (case JobHandle_str self of
        Inl e \<Rightarrow> Some e
      | Inr s \<Rightarrow> (case JobHandle_stats self of Inl e \<Rightarrow> Some e | Inr st \<Rightarrow> None))"

definition unexpected_error_type :: string where
  "unexpected_error_type = ''unexpected error type''"

definition JobHandle_on_success ::
  "'a JobHandle_scheme \<Rightarrow> job \<Rightarrow> 'a JobHandle_scheme \<times> exn option" where
  "JobHandle_on_success self j = (let self1 = self\<lparr>hjob := j\<rparr> in (self1, log_timing self1))"

definition JobHandle_on_error ::
  "'a JobHandle_scheme \<Rightarrow> exn \<Rightarrow> 'a JobHandle_scheme \<times> exn option" where
  "JobHandle_on_error self err =
     (if \<not> is_JobFailedError err then (self, Some (AssertionError unexpected_error_type))
      else (let self1 = self\<lparr>hjob := job err\<rparr> in (self1, log_timing self1)))"

subsection \<open>The awaitable handle\<close>

text \<open>
  An \<open>asyncio.Future\<close> is pending, cancelled, or done with a result or an exception.
  \<open>set_result\<close> and \<open>set_exception\<close> raise \<open>InvalidStateError\<close> on a future that is not
  pending, and \<open>set_exception\<close> raises \<open>TypeError\<close> when it is given a
  \<open>StopIteration\<close>.  Awaiting a pending future suspends the task; awaiting a done one
  gives its result or raises its exception, and a cancelled one raises
  \<open>CancelledError\<close>.
\<close>

datatype future = Pending | Finished pyval | Failed exn | Cancelled

definition invalid_state :: string where
  "invalid_state = ''invalid state''"

definition Future_set_result :: "future \<Rightarrow> pyval \<Rightarrow> future \<times> exn option" where
  "Future_set_result fut v =
     (if fut = Pending then (Finished v, None) else (fut, Some (InvalidStateError invalid_state)))"

definition stop_iteration :: string where
  "stop_iteration = ''StopIteration cannot be raised into a Future''"

definition Future_set_exception :: "future \<Rightarrow> exn \<Rightarrow> future \<times> exn option" where
  "Future_set_exception fut e =
     (if fut \<noteq> Pending then (fut, Some (InvalidStateError invalid_state))
      else if e = StopIteration then (fut, Some (TypeError stop_iteration))
      else (Failed e, None))"

fun Future_await :: "future \<Rightarrow> pyval outcome" where
  "Future_await Pending = Blocked"
| "Future_await (Finished v) = Returned v"
| "Future_await (Failed e) = Raised e"
| "Future_await Cancelled = Raised CancelledError"

record AsyncJobHandle = JobHandle +
  future :: future

definition AsyncJobHandle_init :: "job \<Rightarrow> future \<Rightarrow> AsyncJobHandle" where
  "AsyncJobHandle_init j fut = JobHandle.extend (JobHandle_init j) \<lparr>future = fut\<rparr>"

definition AsyncJobHandle_await :: "AsyncJobHandle \<Rightarrow> pyval outcome" where
  "AsyncJobHandle_await self = Future_await (future self)"

text \<open>
  The two local functions \<open>_set_result\<close> and \<open>_set_err\<close>, with the argument they are
  scheduled with, are the callbacks the event loop holds; their \<open>self\<close> is the handle
  they are run on.  An exception of the first statement leaves the function before the
  future is touched.
\<close>

datatype closure = SetResult job | SetErr exn

definition run_set_result :: "AsyncJobHandle \<Rightarrow> job \<Rightarrow> AsyncJobHandle \<times> exn option" where
  "run_set_result self j =
     (case JobHandle_on_success self j of
        (self1, Some e) \<Rightarrow> (self1, Some e)
      | (self1, None) \<Rightarrow>
          (let (fut, x) = Future_set_result (future self1) (result j)
           in (self1\<lparr>future := fut\<rparr>, x)))"

definition run_set_err :: "AsyncJobHandle \<Rightarrow> exn \<Rightarrow> AsyncJobHandle \<times> exn option" where
  "run_set_err self e =
     (case JobHandle_on_error self e of
        (self1, Some a) \<Rightarrow> (self1, Some a)
      | (self1, None) \<Rightarrow>
          (let (fut, x) = Future_set_exception (future self1) (inner_error e)
           in (self1\<lparr>future := fut\<rparr>, x)))"

fun run_closure :: "closure \<Rightarrow> AsyncJobHandle \<Rightarrow> AsyncJobHandle \<times> exn option" where
  "run_closure (SetResult j) self = run_set_result self j"
| "run_closure (SetErr e) self = run_set_err self e"

text \<open>
  The event loop, as far as this handle sees it: the callbacks that are ready to run, in
  order, and whether the loop has been closed.  \<open>call_soon_threadsafe\<close> raises
  \<open>RuntimeError\<close> on a closed loop; otherwise it appends the callback to the ready queue
  and returns.  The overriding callbacks of \<open>AsyncJobHandle\<close> only schedule: they leave
  the handle as it is, and give the loop after the call and the exception that leaves
  it, if any.
\<close>

record EventLoop =
  ready :: "closure list"
  is_closed :: bool

definition loop_closed :: string where
  "loop_closed = ''Event loop is closed''"

definition call_soon_threadsafe :: "closure \<Rightarrow> EventLoop \<Rightarrow> EventLoop \<times> exn option" where
  "call_soon_threadsafe c lp =
     (if is_closed lp then (lp, Some (RuntimeError loop_closed))
      else (lp\<lparr>ready := ready lp @ [c]\<rparr>, None))"

definition AsyncJobHandle_on_success ::
  "AsyncJobHandle \<Rightarrow> job \<Rightarrow> EventLoop \<Rightarrow> EventLoop \<times> exn option" where
  "AsyncJobHandle_on_success self j lp = call_soon_threadsafe (SetResult j) lp"

definition AsyncJobHandle_on_error ::
  "AsyncJobHandle \<Rightarrow> exn \<Rightarrow> EventLoop \<Rightarrow> EventLoop \<times> exn option" where
  "AsyncJobHandle_on_error self e lp = call_soon_threadsafe (SetErr e) lp"

section \<open>The worker pool\<close>

text \<open>
  \<open>WorkerPool\<close>: the counter \<open>_job_id\<close> (a class attribute \<open>0\<close>, which the first
  increment copies to the instance) and \<open>_pool\<close>, of which the model keeps whether it
  still runs (it does until \<open>__exit__\<close> terminates it) and the jobs handed to
  \<open>apply_async\<close>, in order.  \<open>apply_async\<close> raises \<open>ValueError\<close> on a pool that does not
  run; otherwise it queues the task and returns a result that is not ready.
\<close>

record WorkerPool =
  pool_job_id :: int
  pool_tasks :: "job list"
  pool_running :: bool

definition WorkerPool_init :: WorkerPool where
  "WorkerPool_init = \<lparr>pool_job_id = 0, pool_tasks = [], pool_running = True\<rparr>"

definition next_job_id :: "WorkerPool \<Rightarrow> int \<times> WorkerPool" where
  "next_job_id self =
     (let self1 = self\<lparr>pool_job_id := pool_job_id self + 1\<rparr> in (pool_job_id self1, self1))"

definition pool_not_running :: string where
  "pool_not_running = ''Pool not running''"

definition apply_async :: "WorkerPool \<Rightarrow> job \<Rightarrow> (exn + AsyncResult) \<times> WorkerPool" where
  "apply_async self j =
     (if pool_running self then (Inr NotReady, self\<lparr>pool_tasks := pool_tasks self @ [j]\<rparr>)
      else (Inl (ValueError pool_not_running), self))"

text \<open>
  \<open>WorkerPool._submit\<close> and \<open>WorkerPool.submit\<close>.  The call gives the handle it built,
  the exception that leaves it (\<open>None\<close> when it returns, and then the handle is the
  return value), the pool and the world.  The message of its \<open>log.debug\<close> call formats
  the handle, so the call raises there, before anything is dispatched, when
  \<open>str(handle)\<close> does.
\<close>

definition submit_with ::
  "WorkerPool \<Rightarrow> callable \<Rightarrow> pyval list \<Rightarrow> (job \<Rightarrow> 'a JobHandle_scheme) \<Rightarrow> world
     \<Rightarrow> 'a JobHandle_scheme \<times> exn option \<times> WorkerPool \<times> world" where
  "submit_with self f xs create_handle w =
     (let (jid, self1) = next_job_id self;
          j0 = Job_init jid f xs;
          (t, w1) = datetime_now w;
          j = set_stats j0 (Some \<lparr>submitted_at = t, started_at = None, finished_at = None\<rparr>);
          h = create_handle j
      in case JobHandle_str h of
           Inl e \<Rightarrow> (h, Some e, self1, w1)
         | Inr s \<Rightarrow>
             (case apply_async self1 j of
                (Inl e, self2) \<Rightarrow> (h, Some e, self2, w1)
              | (Inr task, self2) \<Rightarrow> (h\<lparr>pool_task := Some task\<rparr>, None, self2, w1)))"

definition create_future :: future where
  "create_future = Pending"

definition submit ::
  "WorkerPool \<Rightarrow> callable \<Rightarrow> pyval list \<Rightarrow> world
     \<Rightarrow> AsyncJobHandle \<times> exn option \<times> WorkerPool \<times> world" where
  "submit self f xs w = submit_with self f xs (\<lambda>j. AsyncJobHandle_init j create_future) w"

text \<open>
  A run of calls to \<open>submit\<close> on one pool, giving the handles the calls built, in the
  order of the calls.
\<close>

fun submit_all ::
  "WorkerPool \<Rightarrow> (callable \<times> pyval list) list \<Rightarrow> world
     \<Rightarrow> AsyncJobHandle list \<times> WorkerPool \<times> world" where
  "submit_all self [] w = ([], self, w)"
| "submit_all self ((f, xs) # rs) w =
     (let (h, x, self1, w1) = submit self f xs w;
          (hs, self2, w2) = submit_all self1 rs w1
      in (h # hs, self2, w2))"

subsection \<open>Crossing the process boundary\<close>

text \<open>
  A job crosses to a worker, and its result crosses back, by value: it is pickled on one
  side and rebuilt on the other.  Rebuilding an exception calls its class on the \<open>args\<close>
  of the exception.  \<open>JobFailedError.__init__\<close> takes the job and the inner error and
  passes neither on to \<open>Exception.__init__\<close>, so the \<open>args\<close> of a \<open>JobFailedError\<close> are
  empty and rebuilding one raises \<open>TypeError\<close>.  Every other value of the model is rebuilt
  as it was.
\<close>

fun rebuilds_exn :: "exn \<Rightarrow> bool" where
  "rebuilds_exn (JobFailedError j e) = False"
| "rebuilds_exn _ = True"

fun rebuilds :: "pyval \<Rightarrow> bool"
  and rebuilds_job :: "job \<Rightarrow> bool" where
  "rebuilds (JobV j) = rebuilds_job j"
| "rebuilds NoneV = True"
| "rebuilds (IntV i) = True"
| "rebuilds (StrV s) = True"
| "rebuilds_job (Job i f xs st r e) =
     (list_all rebuilds xs \<and> rebuilds r \<and> (case e of None \<Rightarrow> True | Some x \<Rightarrow> rebuilds_exn x))"

section \<open>One submitted job, from dispatch to completion\<close>

text \<open>
  The life of one job involves the handle, the event loop (of which only the callbacks
  of this handle matter), the copy of the job that waits in the pool for a worker, if
  there is one, and the clock.  The loop is open and idle when the job is submitted.
\<close>

record system =
  handle :: AsyncJobHandle
  loop :: EventLoop
  in_flight :: "job option"
  now :: world

definition submitted :: "WorkerPool \<Rightarrow> callable \<Rightarrow> pyval list \<Rightarrow> world \<Rightarrow> system" where
  "submitted p f xs w =
     (let (h, x, p1, w1) = submit p f xs w
      in \<lparr>handle = h, loop = \<lparr>ready = [], is_closed = False\<rparr>,
          in_flight = (case x of None \<Rightarrow> Some (last (pool_tasks p1)) | Some e \<Rightarrow> None),
          now = w1\<rparr>)"

text \<open>
  What the pool does when a task ends (\<open>ApplyResult._set\<close> of the standard library): a
  task that returned calls \<open>callback\<close> with the value, one that raised calls
  \<open>error_callback\<close> with the exception, and then \<open>get()\<close> is released.  When the
  callback raises, \<open>get()\<close> is never released.  A task is completed once: a later result
  for it is dropped.
\<close>

definition pool_set :: "exn + job \<Rightarrow> system \<Rightarrow> system" where
  "pool_set r s =
     (if pool_task (handle s) \<noteq> Some NotReady then s
      else (case r of
              Inr j \<Rightarrow>
                (case AsyncJobHandle_on_success (handle s) j (loop s) of
                   (lp, Some e) \<Rightarrow> s\<lparr>loop := lp\<rparr>
                 | (lp, None) \<Rightarrow>
                     s\<lparr>loop := lp,
                       handle := (handle s)\<lparr>pool_task := Some (Ready (Inr (JobV j)))\<rparr>\<rparr>)
            | Inl e \<Rightarrow>
                (case AsyncJobHandle_on_error (handle s) e (loop s) of
                   (lp, Some a) \<Rightarrow> s\<lparr>loop := lp\<rparr>
                 | (lp, None) \<Rightarrow>
                     s\<lparr>loop := lp,
                       handle := (handle s)\<lparr>pool_task := Some (Ready (Inl e))\<rparr>\<rparr>)))"

text \<open>
  Four things can happen, in any order and any number of times.
  \<^item> \<open>WorkerRuns\<close>: a worker process takes the job that waits in the pool.  If the job
    cannot be rebuilt in the worker, the worker process ends and the task never
    completes.  Otherwise the worker runs \<open>evaluate_job\<close> on its copy.  The worker loop
    of the standard library catches \<open>Exception\<close>; any other exception ends the worker
    process and the task never completes.  The job that \<open>evaluate_job\<close> returns is sent
    back; if it cannot be rebuilt in the submitting process, the thread of the pool that
    receives results ends with the \<open>TypeError\<close>, no callback is called and the task
    never completes.  Otherwise the pool takes the outcome.
  \<^item> \<open>PoolFails e\<close>: the pool itself fails the task with \<open>e\<close>.
  \<^item> \<open>LoopRuns\<close>: the event loop, if it is open, runs the first callback of its ready
    queue.  An exception of a callback goes to the exception handler of the loop, which
    logs it.
  \<^item> \<open>LoopCloses\<close>: the event loop is closed, which empties its ready queue.
\<close>

datatype event = WorkerRuns | PoolFails exn | LoopRuns | LoopCloses

fun step :: "env \<Rightarrow> event \<Rightarrow> system \<Rightarrow> system" where
  "step call WorkerRuns s =
     (case in_flight s of
        None \<Rightarrow> s
      | Some j0 \<Rightarrow>
          (if \<not> rebuilds_job j0 then s\<lparr>in_flight := None\<rparr>
           else (case evaluate_job call j0 (now s) of
                   (j, None, w) \<Rightarrow>
                     (if rebuilds_job j then pool_set (Inr j) (s\<lparr>in_flight := None, now := w\<rparr>)
                      else s\<lparr>in_flight := None, now := w\<rparr>)
                 | (j, Some e, w) \<Rightarrow>
                     (if is_Exception e then pool_set (Inl e) (s\<lparr>in_flight := None, now := w\<rparr>)
                      else s\<lparr>in_flight := None, now := w\<rparr>))))"
| "step call (PoolFails e) s = pool_set (Inl e) s"
| "step call LoopRuns s =
     (if is_closed (loop s) then s
      else (case ready (loop s) of
              [] \<Rightarrow> s
            | c # cs \<Rightarrow>
                s\<lparr>handle := fst (run_closure c (handle s)), loop := (loop s)\<lparr>ready := cs\<rparr>\<rparr>))"
| "step call LoopCloses s = s\<lparr>loop := \<lparr>ready = [], is_closed = True\<rparr>\<rparr>"

fun run :: "env \<Rightarrow> event list \<Rightarrow> system \<Rightarrow> system" where
  "run call [] s = s"
| "run call (ev # evs) s = run call evs (step call ev s)"

section \<open>Sample inputs and the invariant of a submitted job\<close>

text \<open>
  Three module-level functions: \<open>add\<close> adds two integers, \<open>boom\<close> raises
  \<open>ValueError("boom")\<close>, and \<open>quit\<close> raises \<open>SystemExit\<close>; and \<open>partial(add, 2)\<close>, which
  has no \<open>__name__\<close>.  The sample clock advances by one millisecond at each reading.
\<close>

definition add_func :: callable where
  "add_func = Callable ''add'' (Some ''add'')"

definition boom_func :: callable where
  "boom_func = Callable ''boom'' (Some ''boom'')"

definition quit_func :: callable where
  "quit_func = Callable ''quit'' (Some ''quit'')"

definition partial_func :: callable where
  "partial_func = Callable ''functools.partial(add, 2)'' None"

definition example_env :: env where
  "example_env f xs =
     (if target f = ''add'' then
        (case xs of [IntV a, IntV b] \<Rightarrow> Inr (IntV (a + b)) | _ \<Rightarrow> Inl (TypeError ''add''))
      else if target f = ''boom'' then Inl (ValueError ''boom'')
      else if target f = ''quit'' then Inl SystemExit
      else if target f = ''functools.partial(add, 2)'' then
        (case xs of [IntV b] \<Rightarrow> Inr (IntV (2 + b)) | _ \<Rightarrow> Inl (TypeError ''add''))
      else Inl (TypeError (target f)))"

definition example_world :: world where
  "example_world = \<lparr>clock = (\<lambda>n. 1000 * int n), ticks = 0\<rparr>"

definition open_loop :: EventLoop where
  "open_loop = \<lparr>ready = [], is_closed = False\<rparr>"

definition fresh_job :: job where
  "fresh_job = Job_init 7 add_func [IntV 2, IntV 3]"

definition queued_job :: "callable \<Rightarrow> pyval list \<Rightarrow> job" where
  "queued_job f xs =
     Job 1 f xs (Some \<lparr>submitted_at = 0, started_at = None, finished_at = None\<rparr>) NoneV None"

definition done_job :: job where
  "done_job =
     Job 1 add_func [IntV 2, IntV 3]
       (Some \<lparr>submitted_at = 0, started_at = Some 1000, finished_at = Some 2000\<rparr>)
       (IntV 5) None"

definition partial_job :: job where
  "partial_job =
     Job 2 partial_func [IntV 3]
       (Some \<lparr>submitted_at = 0, started_at = Some 1000, finished_at = Some 2000\<rparr>)
       (IntV 5) None"

text \<open>
  What stays true of a submitted job whatever happens to it: the job of the handle, the
  copy that waits in the pool and every job a scheduled callback will install have their
  \<open>stats\<close>, and no scheduled error is a \<open>JobFailedError\<close>.  A failure of the pool is
  pool-level when its error is not a \<open>JobFailedError\<close>: the module builds such an error
  in \<open>evaluate_job\<close> only, where it is stored in the job and never raised.
\<close>

fun closure_ok :: "closure \<Rightarrow> bool" where
  "closure_ok (SetResult j) = (stats j \<noteq> None)"
| "closure_ok (SetErr e) = (\<not> is_JobFailedError e)"

definition stats_populated :: "system \<Rightarrow> bool" where
  "stats_populated s \<longleftrightarrow>
     stats (hjob (handle s)) \<noteq> None
     \<and> (case in_flight s of None \<Rightarrow> True | Some j \<Rightarrow> stats j \<noteq> None)
     \<and> list_all closure_ok (ready (loop s))"

fun pool_level :: "event \<Rightarrow> bool" where
  "pool_level (PoolFails e) = (\<not> is_JobFailedError e)"
| "pool_level _ = True"

text \<open>
  A job whose callable raises an \<open>Exception\<close> is, while the pool does not fail its
  task, never delivered: the result is not ready, the future is pending, nothing is
  scheduled, and the copy that waits in the pool, if it is still there, has its \<open>stats\<close>
  and a callable that raises an \<open>Exception\<close>.
\<close>

definition undelivered :: "env \<Rightarrow> system \<Rightarrow> bool" where
  "undelivered call s \<longleftrightarrow>
     pool_task (handle s) = Some NotReady \<and> future (handle s) = Pending
     \<and> ready (loop s) = []
     \<and> (case in_flight s of
           None \<Rightarrow> True
         | Some j \<Rightarrow>
             stats j \<noteq> None
           \<and> (case call (func j) (args j) of Inl e \<Rightarrow> is_Exception e | Inr v \<Rightarrow> False))"

fun worker_or_loop :: "event \<Rightarrow> bool" where
  "worker_or_loop (PoolFails e) = False"
| "worker_or_loop _ = True"

section \<open>Properties\<close>

subsection \<open>The worker entry point, case by case\<close>

lemma set_error_sel [simp]:
  "jobid (set_error j e) = jobid j" "func (set_error j e) = func j"
  "args (set_error j e) = args j" "stats (set_error j e) = stats j"
  "result (set_error j e) = result j" "error (set_error j e) = e"
  by (cases j; simp)+

lemma evaluate_job_unset:
  "evaluate_job call (Job i f xs None r e0) w =
     (Job i f xs None r
        (Some (JobFailedError (Job i f xs None r e0) (AssertionError not_submitted))),
      None, w)"
  by (simp add: evaluate_job_def try_body_def except_clause_def finally_clause_def)

lemma evaluate_job_populated:
  "evaluate_job call (Job i f xs (Some st) r e0) w =
     (let t1 = clock w (ticks w); t2 = clock w (Suc (ticks w));
          st1 = st\<lparr>started_at := Some t1\<rparr>;
          st2 = st\<lparr>started_at := Some t1, finished_at := Some t2\<rparr>;
          w2 = w\<lparr>ticks := Suc (Suc (ticks w))\<rparr>
      in case call f xs of
           Inr v \<Rightarrow> (Job i f xs (Some st2) v e0, None, w2)
         | Inl e \<Rightarrow>
             (if is_Exception e
              then (Job i f xs (Some st2) r
                      (Some (JobFailedError (Job i f xs (Some st1) r e0) e)), None, w2)
              else (Job i f xs (Some st2) r e0, Some e, w2)))"
  by (simp add: evaluate_job_def try_body_def except_clause_def finally_clause_def
      datetime_now_def Let_def split: sum.split)

text \<open>
  \<^bold>\<open>C3\<close> (as the code has it).  On a job whose \<open>stats\<close> is unset, the assertion of
  \<open>evaluate_job\<close> fails inside the \<open>try\<close> block, and an \<open>AssertionError\<close> is an
  \<open>Exception\<close>: the handler wraps it in a \<open>JobFailedError\<close> and stores it in the \<open>error\<close>
  slot.  The function then returns the job normally: no exception leaves it, the callable
  is not called (the result does not depend on the environment and the \<open>result\<close> slot is
  untouched), the clock is not read and \<open>stats\<close> stays unset.
\<close>

theorem evaluate_job_absorbs_unset_stats:
  assumes "stats j = None"
  shows "evaluate_job call j w =
           (set_error j (Some (JobFailedError j (AssertionError not_submitted))), None, w)"
  using assms by (cases j) (simp add: evaluate_job_unset)

theorem evaluate_job_absorbs_unset_stats_witness:
  "stats fresh_job = None
   \<and> evaluate_job example_env fresh_job example_world =
       (Job 7 add_func [IntV 2, IntV 3] None NoneV
          (Some (JobFailedError fresh_job (AssertionError not_submitted))),
        None, example_world)"
proof -
  have h: "stats fresh_job = None"
    by (simp add: fresh_job_def Job_init_def)
  show ?thesis
    using h evaluate_job_absorbs_unset_stats [OF h, of example_env example_world]
    by (simp add: fresh_job_def Job_init_def)
qed

text \<open>
  The claim as written fails: on the job \<open>Job(7, add, 2, 3)\<close>, never submitted, no
  exception leaves \<open>evaluate_job\<close>.
\<close>

theorem evaluate_job_unset_stats_counterexample:
  "fst (snd (evaluate_job example_env fresh_job example_world)) = None"
  by (simp add: fresh_job_def Job_init_def evaluate_job_unset)

text \<open>
  \<^bold>\<open>C8\<close> (as the code has it).  On a job whose \<open>stats\<close> is populated, \<open>evaluate_job\<close>
  leaves \<open>id\<close>, \<open>func\<close>, \<open>args\<close> and \<open>stats.submitted_at\<close> as they are.  It reads the
  clock exactly twice: the first reading becomes \<open>started_at\<close>, the second becomes
  \<open>finished_at\<close>, whatever the callable does.  When the callable returns, or raises an
  \<open>Exception\<close>, the function returns the job (with the value in \<open>result\<close>, or a
  \<open>JobFailedError\<close> around the exception in \<open>error\<close>).  When the callable raises
  an exception that is not an \<open>Exception\<close>, that exception leaves \<open>evaluate_job\<close>, after
  \<open>finished_at\<close> is recorded.
\<close>

theorem evaluate_job_frame:
  assumes "stats j = Some st" and "evaluate_job call j w = (j', x, w')"
  shows "jobid j' = jobid j \<and> func j' = func j \<and> args j' = args j
       \<and> (\<exists>st'. stats j' = Some st' \<and> submitted_at st' = submitted_at st
             \<and> started_at st' = Some (clock w (ticks w))
             \<and> finished_at st' = Some (clock w (Suc (ticks w))))
       \<and> clock w' = clock w \<and> ticks w' = ticks w + 2
       \<and> (case call (func j) (args j) of
             Inr v \<Rightarrow> x = None \<and> result j' = v \<and> error j' = error j
           | Inl e \<Rightarrow>
               result j' = result j
             \<and> (if is_Exception e
                 then x = None \<and> (\<exists>j1. error j' = Some (JobFailedError j1 e))
                 else x = Some e \<and> error j' = error j))"
  using assms
  by (cases j) (auto simp add: evaluate_job_populated Let_def split: sum.splits if_splits)

theorem evaluate_job_frame_witness:
  "stats (queued_job add_func [IntV 2, IntV 3])
     = Some \<lparr>submitted_at = 0, started_at = None, finished_at = None\<rparr>
   \<and> evaluate_job example_env (queued_job add_func [IntV 2, IntV 3]) (example_world\<lparr>ticks := 1\<rparr>)
     = (done_job, None, example_world\<lparr>ticks := 3\<rparr>)
   \<and> jobid done_job = 1 \<and> result done_job = IntV 5
   \<and> (\<exists>st'. stats done_job = Some st' \<and> submitted_at st' = 0
          \<and> started_at st' = Some 1000 \<and> finished_at st' = Some 2000)"
proof -
  have h1: "stats (queued_job add_func [IntV 2, IntV 3])
              = Some \<lparr>submitted_at = 0, started_at = None, finished_at = None\<rparr>"
    by (simp add: queued_job_def)
  have h2: "evaluate_job example_env (queued_job add_func [IntV 2, IntV 3])
              (example_world\<lparr>ticks := 1\<rparr>)
              = (done_job, None, example_world\<lparr>ticks := 3\<rparr>)"
    by (simp add: queued_job_def done_job_def evaluate_job_populated example_env_def
        example_world_def add_func_def)
  show ?thesis
    using h1 h2 evaluate_job_frame [OF h1 h2]
    by (simp add: queued_job_def example_env_def example_world_def add_func_def)
qed

text \<open>
  The claim as written fails: on a submitted job whose callable raises \<open>SystemExit\<close>,
  \<open>evaluate_job\<close> does not return the job; the exception leaves it.
\<close>

theorem evaluate_job_returns_counterexample:
  "fst (snd (evaluate_job example_env (queued_job quit_func []) example_world))
     = Some SystemExit"
  by (simp add: queued_job_def evaluate_job_populated example_env_def quit_func_def)

subsection \<open>Elapsed time\<close>

text \<open>
  \<^bold>\<open>C5\<close> (as the code has it).  For every \<open>JobStats\<close> value, \<open>elapsed\<close> is \<open>0\<close> when
  \<open>started_at\<close> or \<open>finished_at\<close> is unset; otherwise it is \<open>finished_at - started_at\<close>
  in seconds, which is non-negative exactly when \<open>started_at\<close> is not after
  \<open>finished_at\<close>.
\<close>

theorem elapsed_cases:
  "(started_at s = None \<or> finished_at s = None \<longrightarrow> elapsed s = 0)
   \<and> (\<forall>a b. started_at s = Some a \<and> finished_at s = Some b \<longrightarrow>
          elapsed s = total_seconds (b - a) \<and> (0 \<le> elapsed s \<longleftrightarrow> a \<le> b))"
  by (auto simp add: elapsed_def total_seconds_def split: option.splits)

theorem elapsed_cases_witness:
  "elapsed \<lparr>submitted_at = 0, started_at = None, finished_at = Some 5\<rparr> = 0
   \<and> elapsed \<lparr>submitted_at = 0, started_at = Some 1000, finished_at = Some 3000\<rparr>
       = total_seconds 2000
   \<and> 0 \<le> elapsed \<lparr>submitted_at = 0, started_at = Some 1000, finished_at = Some 3000\<rparr>"
  using elapsed_cases [of "\<lparr>submitted_at = 0, started_at = None, finished_at = Some 5\<rparr>"]
        elapsed_cases [of "\<lparr>submitted_at = 0, started_at = Some 1000, finished_at = Some 3000\<rparr>"]
  by simp

text \<open>
  The claim as written fails: \<open>JobStats\<close> checks no order between its fields, and with
  \<open>started_at\<close> ten microseconds and \<open>finished_at\<close> five microseconds after the epoch
  \<open>elapsed\<close> is negative.
\<close>

theorem elapsed_negative_counterexample:
  "elapsed \<lparr>submitted_at = 0, started_at = Some 10, finished_at = Some 5\<rparr> < 0"
  by (simp add: elapsed_def total_seconds_def)

subsection \<open>Handles outside a pool\<close>

text \<open>
  \<^bold>\<open>C6\<close>.  A handle of either class built around a job whose \<open>stats\<close> is unset, as
  every job is that \<open>submit\<close> has not dispatched, has no pool task: reading \<open>stats\<close>
  raises the \<open>AssertionError\<close> of the precondition, and so does \<open>join()\<close>; neither gives
  a value.
\<close>

theorem undispatched_handle_fails:
  assumes "stats j = None"
  shows "JobHandle_stats (JobHandle_init j) = Inl (AssertionError not_submitted)
       \<and> join (JobHandle_init j) = Raised (AssertionError not_submitted)
       \<and> JobHandle_stats (AsyncJobHandle_init j fut) = Inl (AssertionError not_submitted)
       \<and> join (AsyncJobHandle_init j fut) = Raised (AssertionError not_submitted)"
  using assms
  by (simp add: JobHandle_stats_def join_def JobHandle_init_def AsyncJobHandle_init_def
      JobHandle.extend_def)

theorem undispatched_handle_fails_witness:
  "stats (Job_init 1 add_func [IntV 2, IntV 3]) = None
   \<and> JobHandle_stats (JobHandle_init (Job_init 1 add_func [IntV 2, IntV 3]))
       = Inl (AssertionError not_submitted)
   \<and> join (AsyncJobHandle_init (Job_init 1 add_func [IntV 2, IntV 3]) Pending)
       = Raised (AssertionError not_submitted)"
proof -
  have h: "stats (Job_init 1 add_func [IntV 2, IntV 3]) = None"
    by (simp add: Job_init_def)
  show ?thesis
    using h undispatched_handle_fails [OF h, of Pending] by simp
qed

subsection \<open>The log line of the callbacks\<close>

lemma JobHandle_str_eq:
  "JobHandle_str self =
     (case dunder_name (func (hjob self)) of
        None \<Rightarrow> Inl (AttributeError no_name)
      | Some n \<Rightarrow> Inr (''(Handle) '' @ ''Job '' @ str_int (jobid (hjob self)) @ '' - '' @ n))"
  by (simp add: JobHandle_str_def Job_str_def Job_name_def split: option.split)

lemma log_timing_eq:
  "log_timing self =
     (if dunder_name (func (hjob self)) = None then Some (AttributeError no_name)
      else if stats (hjob self) = None then Some (AssertionError not_submitted)
      else None)"
  by (auto simp add: log_timing_def JobHandle_str_eq JobHandle_stats_def split: option.split)

subsection \<open>The failure callback\<close>

lemma JobHandle_on_error_other:
  "\<not> is_JobFailedError err \<Longrightarrow>
     JobHandle_on_error self err = (self, Some (AssertionError unexpected_error_type))"
  by (simp add: JobHandle_on_error_def)

lemma JobHandle_on_error_job:
  "is_JobFailedError err \<Longrightarrow>
     JobHandle_on_error self err = (self\<lparr>hjob := job err\<rparr>, log_timing (self\<lparr>hjob := job err\<rparr>))"
  by (simp add: JobHandle_on_error_def Let_def)

lemma run_set_err_other:
  "\<not> is_JobFailedError err \<Longrightarrow>
     run_set_err self err = (self, Some (AssertionError unexpected_error_type))"
  by (simp add: run_set_err_def JobHandle_on_error_other)

lemma hjob_run_set_err:
  "is_JobFailedError err \<Longrightarrow> hjob (fst (run_set_err self err)) = job err"
  by (simp add: run_set_err_def JobHandle_on_error_job split: option.split prod.split)

lemma AsyncJobHandle_on_error_eq:
  "AsyncJobHandle_on_error self err lp =
     (if is_closed lp then (lp, Some (RuntimeError loop_closed))
      else (lp\<lparr>ready := ready lp @ [SetErr err]\<rparr>, None))"
  by (simp add: AsyncJobHandle_on_error_def call_soon_threadsafe_def)

lemma AsyncJobHandle_on_success_eq:
  "AsyncJobHandle_on_success self j lp =
     (if is_closed lp then (lp, Some (RuntimeError loop_closed))
      else (lp\<lparr>ready := ready lp @ [SetResult j]\<rparr>, None))"
  by (simp add: AsyncJobHandle_on_success_def call_soon_threadsafe_def)

text \<open>
  \<^bold>\<open>C9\<close> (as the code has it).  The base method \<open>JobHandle._on_error\<close>, which is the
  failure callback of a plain \<open>JobHandle\<close>, raises the \<open>AssertionError\<close> of its type check
  for an error that is not a \<open>JobFailedError\<close>, and leaves the handle as it was; for a
  \<open>JobFailedError\<close> it makes the job carried by the error the job of the handle, and
  then evaluates its log line.  The failure callback of an \<open>AsyncJobHandle\<close>, which is
  the one every handle from \<open>submit\<close> has, does neither when it is called: it leaves the
  handle as it is and schedules a callback on the event loop for any error, or raises
  \<open>RuntimeError\<close> when the loop is closed.  The check and the replacement happen when
  the loop runs the scheduled callback, which calls the base method first.
\<close>

theorem on_error_contract:
  "(\<not> is_JobFailedError err \<longrightarrow>
      JobHandle_on_error self err = (self, Some (AssertionError unexpected_error_type))
    \<and> run_closure (SetErr err) aself = (aself, Some (AssertionError unexpected_error_type)))
   \<and> (is_JobFailedError err \<longrightarrow>
        JobHandle_on_error self err
          = (self\<lparr>hjob := job err\<rparr>, log_timing (self\<lparr>hjob := job err\<rparr>))
      \<and> hjob (fst (run_closure (SetErr err) aself)) = job err)
   \<and> AsyncJobHandle_on_error aself err lp
       = (if is_closed lp then (lp, Some (RuntimeError loop_closed))
          else (lp\<lparr>ready := ready lp @ [SetErr err]\<rparr>, None))"
  by (simp add: JobHandle_on_error_other JobHandle_on_error_job run_set_err_other
      hjob_run_set_err AsyncJobHandle_on_error_eq)

theorem on_error_contract_witness:
  "JobHandle_on_error (JobHandle_init fresh_job) (ValueError ''boom'')
     = (JobHandle_init fresh_job, Some (AssertionError unexpected_error_type))
   \<and> hjob (fst (JobHandle_on_error (JobHandle_init fresh_job)
                   (JobFailedError done_job (ValueError ''boom'')))) = done_job
   \<and> hjob (fst (run_closure (SetErr (JobFailedError done_job (ValueError ''boom'')))
                   (AsyncJobHandle_init fresh_job Pending))) = done_job
   \<and> AsyncJobHandle_on_error (AsyncJobHandle_init fresh_job Pending)
        (JobFailedError done_job (ValueError ''boom'')) open_loop
     = (\<lparr>ready = [SetErr (JobFailedError done_job (ValueError ''boom''))], is_closed = False\<rparr>,
        None)"
  using on_error_contract [of "ValueError ''boom''" "JobHandle_init fresh_job"
                              "AsyncJobHandle_init fresh_job Pending" open_loop]
        on_error_contract [of "JobFailedError done_job (ValueError ''boom'')"
                              "JobHandle_init fresh_job" "AsyncJobHandle_init fresh_job Pending"
                              open_loop]
  by (simp add: open_loop_def)

text \<open>
  The claim as written fails for the handles that \<open>submit\<close> returns: called with a
  \<open>ValueError\<close>, which is not a \<open>JobFailedError\<close>, the failure callback of an
  \<open>AsyncJobHandle\<close> does not fail; it schedules a callback and returns.
\<close>

theorem on_error_async_counterexample:
  "AsyncJobHandle_on_error (AsyncJobHandle_init fresh_job Pending) (ValueError ''boom'')
     open_loop
     = (\<lparr>ready = [SetErr (ValueError ''boom'')], is_closed = False\<rparr>, None)"
  by (simp add: AsyncJobHandle_on_error_eq open_loop_def)

subsection \<open>Submission\<close>

lemma submit_eq:
  "submit p f xs w =
     (let j = Job (pool_job_id p + 1) f xs
                (Some \<lparr>submitted_at = clock w (ticks w), started_at = None, finished_at = None\<rparr>)
                NoneV None;
          p1 = p\<lparr>pool_job_id := pool_job_id p + 1\<rparr>;
          w1 = w\<lparr>ticks := Suc (ticks w)\<rparr>
      in if dunder_name f = None
         then (\<lparr>hjob = j, pool_task = None, future = Pending\<rparr>,
               Some (AttributeError no_name), p1, w1)
         else if \<not> pool_running p
         then (\<lparr>hjob = j, pool_task = None, future = Pending\<rparr>,
               Some (ValueError pool_not_running), p1, w1)
         else (\<lparr>hjob = j, pool_task = Some NotReady, future = Pending\<rparr>,
               None, p1\<lparr>pool_tasks := pool_tasks p @ [j]\<rparr>, w1))"
  by (auto simp add: submit_def submit_with_def next_job_id_def Job_init_def datetime_now_def
      apply_async_def AsyncJobHandle_init_def JobHandle_init_def JobHandle.extend_def
      create_future_def Let_def JobHandle_str_eq split: option.split)

lemma submitted_eq:
  "submitted p f xs w =
     (let j = Job (pool_job_id p + 1) f xs
                (Some \<lparr>submitted_at = clock w (ticks w), started_at = None, finished_at = None\<rparr>)
                NoneV None;
          ok = (dunder_name f \<noteq> None \<and> pool_running p)
      in \<lparr>handle = \<lparr>hjob = j, pool_task = (if ok then Some NotReady else None),
                     future = Pending\<rparr>,
          loop = \<lparr>ready = [], is_closed = False\<rparr>,
          in_flight = (if ok then Some j else None),
          now = w\<lparr>ticks := Suc (ticks w)\<rparr>\<rparr>)"
  by (simp add: submitted_def submit_eq Let_def)

lemma submit_all_ids:
  "map job_id (fst (submit_all p rs w)) = map (\<lambda>k. pool_job_id p + 1 + int k) [0..<length rs]"
proof (induction rs arbitrary: p w)
  case Nil
  show ?case by simp
next
  case (Cons r rs)
  obtain f xs where r: "r = (f, xs)" by (cases r)
  obtain h x p1 w1 where s: "submit p f xs w = (h, x, p1, w1)"
    by (cases "submit p f xs w")
  have h: "job_id h = pool_job_id p + 1" and p1: "pool_job_id p1 = pool_job_id p + 1"
    using s by (auto simp add: submit_eq Let_def job_id_def split: if_splits)
  have "map job_id (fst (submit_all p (r # rs) w))
          = job_id h # map job_id (fst (submit_all p1 rs w1))"
    by (simp add: r s split: prod.split)
  also have "\<dots> = (pool_job_id p + 1) # map (\<lambda>k. pool_job_id p1 + 1 + int k) [0..<length rs]"
    by (simp add: h Cons.IH)
  also have "\<dots> = map (\<lambda>k. pool_job_id p + 1 + int k) [0..<length (r # rs)]"
    by (simp add: p1 upt_rec [of 0] map_Suc_upt [symmetric] del: upt_Suc)
  finally show ?case .
qed

lemma ids_strict: "sorted_wrt (<) (map (\<lambda>k. c + int k) [0..<n])"
  by (simp add: sorted_wrt_map sorted_wrt_iff_nth_less)

text \<open>
  \<^bold>\<open>C4\<close>.  Any run of calls to \<open>submit\<close> on one pool, from any value of its counter,
  builds one handle for each call, and the ids of their jobs, in the order of the calls,
  are strictly increasing, hence pairwise distinct.  This holds whether or not a call
  then raises (for a callable without \<open>__name__\<close>, or on a pool that does not run).
\<close>

theorem submit_ids_increasing:
  "length (fst (submit_all p rs w)) = length rs
   \<and> sorted_wrt (<) (map job_id (fst (submit_all p rs w)))
   \<and> distinct (map job_id (fst (submit_all p rs w)))"
proof -
  have len: "length (map job_id (fst (submit_all p rs w))) = length rs"
    by (simp only: submit_all_ids length_map length_upt)
  have srt: "sorted_wrt (<) (map job_id (fst (submit_all p rs w)))"
    by (simp only: submit_all_ids ids_strict)
  have "distinct (map job_id (fst (submit_all p rs w)))"
    using srt by (simp only: strict_sorted_iff)
  with len srt show ?thesis by simp
qed

theorem submit_ids_increasing_witness:
  "map job_id (fst (submit_all WorkerPool_init
                      [(add_func, [IntV 2, IntV 3]), (boom_func, []), (add_func, [IntV 1, IntV 1])]
                      example_world)) = [1, 2, 3]
   \<and> distinct (map job_id (fst (submit_all WorkerPool_init
                      [(add_func, [IntV 2, IntV 3]), (boom_func, []), (add_func, [IntV 1, IntV 1])]
                      example_world)))"
  using submit_ids_increasing
          [of WorkerPool_init
              "[(add_func, [IntV 2, IntV 3]), (boom_func, []), (add_func, [IntV 1, IntV 1])]"
              example_world]
  by (simp add: submit_eq Let_def job_id_def WorkerPool_init_def add_func_def boom_func_def)

subsection \<open>The callbacks of the awaitable handle\<close>

lemma run_set_result_eq:
  "run_set_result self j =
     (if dunder_name (func j) = None then (self\<lparr>hjob := j\<rparr>, Some (AttributeError no_name))
      else if stats j = None then (self\<lparr>hjob := j\<rparr>, Some (AssertionError not_submitted))
      else if future self = Pending
      then (self\<lparr>hjob := j, future := Finished (result j)\<rparr>, None)
      else (self\<lparr>hjob := j\<rparr>, Some (InvalidStateError invalid_state)))"
  by (auto simp add: run_set_result_def JobHandle_on_success_def log_timing_eq
      Future_set_result_def Let_def)

lemma run_set_err_eq:
  "run_set_err self (JobFailedError jb e) =
     (if dunder_name (func jb) = None then (self\<lparr>hjob := jb\<rparr>, Some (AttributeError no_name))
      else if stats jb = None then (self\<lparr>hjob := jb\<rparr>, Some (AssertionError not_submitted))
      else if future self \<noteq> Pending
      then (self\<lparr>hjob := jb\<rparr>, Some (InvalidStateError invalid_state))
      else if e = StopIteration then (self\<lparr>hjob := jb\<rparr>, Some (TypeError stop_iteration))
      else (self\<lparr>hjob := jb, future := Failed e\<rparr>, None))"
  by (auto simp add: run_set_err_def JobHandle_on_error_def log_timing_eq
      Future_set_exception_def Let_def)

text \<open>
  \<^bold>\<open>C7\<close> (as the code has it).  The success callback of an \<open>AsyncJobHandle\<close> schedules
  a callback on the event loop, and so does the failure callback; on a closed loop each
  raises \<open>RuntimeError\<close> instead.  When the loop runs the first one on a handle whose
  future is pending, with a delivered job whose callable has a \<open>__name__\<close> and whose
  \<open>stats\<close> is populated, it installs the job and resolves the future with the \<open>result\<close>
  of the job.  When it runs the second one on a handle whose future is pending, with a
  \<open>JobFailedError\<close> whose job has a named callable and its \<open>stats\<close> and whose inner
  error is not a \<open>StopIteration\<close>, it installs that job and rejects the future with the
  inner error, not with the wrapper.  In every other
  case of these two the callback raises and leaves the future as it was, and so it does
  for an error that is not a \<open>JobFailedError\<close>.  Awaiting the handle is awaiting its
  future, and suspends exactly while the future is pending.
\<close>

theorem async_callbacks:
  "AsyncJobHandle_on_success self j lp
     = (if is_closed lp then (lp, Some (RuntimeError loop_closed))
        else (lp\<lparr>ready := ready lp @ [SetResult j]\<rparr>, None))
   \<and> AsyncJobHandle_on_error self err lp
     = (if is_closed lp then (lp, Some (RuntimeError loop_closed))
        else (lp\<lparr>ready := ready lp @ [SetErr err]\<rparr>, None))
   \<and> (dunder_name (func j) \<noteq> None \<and> stats j \<noteq> None \<and> future self = Pending \<longrightarrow>
        run_closure (SetResult j) self
          = (self\<lparr>hjob := j, future := Finished (result j)\<rparr>, None))
   \<and> (dunder_name (func jb) \<noteq> None \<and> stats jb \<noteq> None \<and> future self = Pending
        \<and> e \<noteq> StopIteration \<longrightarrow>
        run_closure (SetErr (JobFailedError jb e)) self
          = (self\<lparr>hjob := jb, future := Failed e\<rparr>, None))
   \<and> (dunder_name (func j) = None \<or> stats j = None \<or> future self \<noteq> Pending \<longrightarrow>
        future (fst (run_closure (SetResult j) self)) = future self
      \<and> snd (run_closure (SetResult j) self) \<noteq> None)
   \<and> (dunder_name (func jb) = None \<or> stats jb = None \<or> future self \<noteq> Pending
        \<or> e = StopIteration \<longrightarrow>
        future (fst (run_closure (SetErr (JobFailedError jb e)) self)) = future self
      \<and> snd (run_closure (SetErr (JobFailedError jb e)) self) \<noteq> None)
   \<and> (\<not> is_JobFailedError err \<longrightarrow>
        run_closure (SetErr err) self = (self, Some (AssertionError unexpected_error_type)))
   \<and> AsyncJobHandle_await self = Future_await (future self)
   \<and> (AsyncJobHandle_await self = Blocked \<longleftrightarrow> future self = Pending)"
proof -
  have "Future_await (future self) = Blocked \<longleftrightarrow> future self = Pending"
    by (cases "future self") simp_all
  then show ?thesis
    by (simp add: AsyncJobHandle_on_success_eq AsyncJobHandle_on_error_eq
        run_set_result_eq run_set_err_eq run_set_err_other AsyncJobHandle_await_def)
qed

theorem async_callbacks_witness:
  "run_closure (SetResult done_job) (AsyncJobHandle_init done_job Pending)
     = (\<lparr>hjob = done_job, pool_task = None, future = Finished (IntV 5)\<rparr>, None)
   \<and> run_closure (SetErr (JobFailedError done_job (ValueError ''boom'')))
        (AsyncJobHandle_init done_job Pending)
     = (\<lparr>hjob = done_job, pool_task = None, future = Failed (ValueError ''boom'')\<rparr>, None)
   \<and> future (fst (run_closure (SetResult done_job) (AsyncJobHandle_init done_job Cancelled)))
     = Cancelled
   \<and> future (fst (run_closure (SetErr (JobFailedError fresh_job (ValueError ''boom'')))
                     (AsyncJobHandle_init done_job Pending)))
     = Pending
   \<and> run_closure (SetErr (ValueError ''boom'')) (AsyncJobHandle_init done_job Pending)
     = (AsyncJobHandle_init done_job Pending, Some (AssertionError unexpected_error_type))"
  using async_callbacks [of "AsyncJobHandle_init done_job Pending" done_job open_loop
                            "ValueError ''boom''" done_job "ValueError ''boom''"]
        async_callbacks [of "AsyncJobHandle_init done_job Cancelled" done_job open_loop
                            "ValueError ''boom''" done_job "ValueError ''boom''"]
        async_callbacks [of "AsyncJobHandle_init done_job Pending" done_job open_loop
                            "ValueError ''boom''" fresh_job "ValueError ''boom''"]
  by (simp add: done_job_def AsyncJobHandle_init_def JobHandle_init_def JobHandle.extend_def
      Job_init_def fresh_job_def add_func_def)

text \<open>
  The claim as written fails.  On a handle whose future was cancelled, the scheduled
  success callback does not resolve the future with the result of the delivered job;
  on a handle whose future is pending, a delivered job without \<open>stats\<close>, or one whose
  callable has no \<open>__name__\<close>, makes the callback raise before it reaches the future.
\<close>

theorem async_callbacks_counterexample:
  "future (fst (run_closure (SetResult done_job) (AsyncJobHandle_init done_job Cancelled)))
     \<noteq> Finished (result done_job)
   \<and> future (fst (run_closure (SetResult fresh_job) (AsyncJobHandle_init done_job Pending)))
     \<noteq> Finished (result fresh_job)
   \<and> future (fst (run_closure (SetResult partial_job) (AsyncJobHandle_init done_job Pending)))
     \<noteq> Finished (result partial_job)"
  by (simp add: run_set_result_eq done_job_def AsyncJobHandle_init_def JobHandle_init_def
      JobHandle.extend_def Job_init_def fresh_job_def partial_job_def partial_func_def
      add_func_def)

subsection \<open>A failing callable, end to end\<close>

lemma undelivered_step:
  assumes "undelivered call s" and "worker_or_loop ev"
  shows "undelivered call (step call ev s)"
proof (cases ev)
  case WorkerRuns
  show ?thesis
  proof (cases "in_flight s")
    case None
    with WorkerRuns assms(1) show ?thesis by simp
  next
    case (Some j0)
    obtain i f xs st r e0 where j0: "j0 = Job i f xs st r e0" by (cases j0)
    from assms(1) Some j0 obtain a e
      where st: "st = Some a" and c: "call f xs = Inl e" and e: "is_Exception e"
      by (auto simp add: undelivered_def split: sum.splits)
    from assms(1) have "undelivered call (s\<lparr>in_flight := None\<rparr>)"
      and "\<And>w. undelivered call (s\<lparr>in_flight := None, now := w\<rparr>)"
      by (simp_all add: undelivered_def)
    with WorkerRuns Some j0 st c e show ?thesis
      by (simp add: evaluate_job_populated Let_def)
  qed
next
  case (PoolFails e)
  with assms(2) show ?thesis by simp
next
  case LoopRuns
  with assms(1) show ?thesis by (simp add: undelivered_def)
next
  case LoopCloses
  with assms(1) show ?thesis by (simp add: undelivered_def)
qed

lemma undelivered_run:
  assumes "undelivered call s" and "list_all worker_or_loop evs"
  shows "undelivered call (run call evs s)"
  using assms by (induction evs arbitrary: s) (simp_all add: undelivered_step)

text \<open>
  \<^bold>\<open>C1\<close> (as the code has it).  Take a job that \<open>submit\<close> has dispatched and whose
  callable raises an \<open>Exception\<close>.  The pool holds a copy of the job of the handle, with
  the callable and the arguments of the call.  On that job \<open>evaluate_job\<close> returns
  normally: no exception leaves it, the exception is wrapped in a \<open>JobFailedError\<close> in the
  \<open>error\<close> slot, and \<open>result\<close> is still \<open>None\<close>.  Whatever the worker and the event
  loop then do, as long as the pool itself does not fail the task, neither \<open>join()\<close> nor
  awaiting the handle raises the error of the callable, or any other.
\<close>

theorem user_failure_absorbed:
  assumes "call f xs = Inl e" and "is_Exception e"
    and "submit p f xs w = (h, None, p1, w1)"
    and "\<forall>a. PoolFails a \<notin> set evs"
  shows "func (hjob h) = f \<and> args (hjob h) = xs
       \<and> pool_tasks p1 = pool_tasks p @ [hjob h]
       \<and> in_flight (submitted p f xs w) = Some (hjob h)
       \<and> now (submitted p f xs w) = w1
       \<and> (case evaluate_job call (hjob h) w1 of
             (j, x, w2) \<Rightarrow>
               x = None \<and> (\<exists>j1. error j = Some (JobFailedError j1 e)) \<and> result j = NoneV)
       \<and> (\<forall>a. join (handle (run call evs (submitted p f xs w))) \<noteq> Raised a)
       \<and> (\<forall>a. AsyncJobHandle_await (handle (run call evs (submitted p f xs w)))
                 \<noteq> Raised a)"
proof -
  have ok: "dunder_name f \<noteq> None" "pool_running p"
    using assms(3) by (auto simp add: submit_eq Let_def split: if_splits)
  have h: "h = \<lparr>hjob = Job (pool_job_id p + 1) f xs
                   (Some \<lparr>submitted_at = clock w (ticks w), started_at = None,
                           finished_at = None\<rparr>) NoneV None,
                pool_task = Some NotReady, future = Pending\<rparr>"
    and p1: "pool_tasks p1 = pool_tasks p @ [hjob h]"
    and w1: "w1 = w\<lparr>ticks := Suc (ticks w)\<rparr>"
    using assms(3) ok by (auto simp add: submit_eq Let_def)
  have "list_all worker_or_loop evs"
    unfolding list_all_iff
  proof
    fix ev assume "ev \<in> set evs"
    with assms(4) show "worker_or_loop ev" by (cases ev) auto
  qed
  moreover have "undelivered call (submitted p f xs w)"
    using assms(1,2) ok by (simp add: undelivered_def submitted_eq Let_def)
  ultimately have "undelivered call (run call evs (submitted p f xs w))"
    by (simp add: undelivered_run)
  then have blocked: "join (handle (run call evs (submitted p f xs w))) = Blocked"
      "AsyncJobHandle_await (handle (run call evs (submitted p f xs w))) = Blocked"
    by (simp_all add: undelivered_def join_def AsyncJobHandle_await_def)
  have never: "(\<forall>a. join (handle (run call evs (submitted p f xs w))) \<noteq> Raised a)
       \<and> (\<forall>a. AsyncJobHandle_await (handle (run call evs (submitted p f xs w)))
                 \<noteq> Raised a)"
    by (simp add: blocked)
  have "func (hjob h) = f \<and> args (hjob h) = xs
       \<and> pool_tasks p1 = pool_tasks p @ [hjob h]
       \<and> in_flight (submitted p f xs w) = Some (hjob h)
       \<and> now (submitted p f xs w) = w1
       \<and> (case evaluate_job call (hjob h) w1 of
             (j, x, w2) \<Rightarrow>
               x = None \<and> (\<exists>j1. error j = Some (JobFailedError j1 e)) \<and> result j = NoneV)"
    using assms(1,2) ok
    by (simp add: h p1 w1 submitted_eq evaluate_job_populated Let_def)
  with never show ?thesis by (simp only: simp_thms)
qed

theorem user_failure_absorbed_witness:
  "(case evaluate_job example_env (queued_job boom_func []) (example_world\<lparr>ticks := 1\<rparr>) of
      (j, x, w2) \<Rightarrow>
        x = None \<and> result j = NoneV
      \<and> map_option is_JobFailedError (error j) = Some True
      \<and> map_option inner_error (error j) = Some (ValueError ''boom''))
   \<and> in_flight (submitted WorkerPool_init boom_func [] example_world)
       = Some (queued_job boom_func [])
   \<and> join (handle (run example_env [WorkerRuns, LoopRuns]
                      (submitted WorkerPool_init boom_func [] example_world)))
       \<noteq> Raised (ValueError ''boom'')"
proof -
  have h1: "example_env boom_func [] = Inl (ValueError ''boom'')"
    by (simp add: example_env_def boom_func_def)
  have h2: "is_Exception (ValueError ''boom'')"
    by simp
  have h3: "submit WorkerPool_init boom_func [] example_world
              = (\<lparr>hjob = queued_job boom_func [], pool_task = Some NotReady, future = Pending\<rparr>,
                 None,
                 \<lparr>pool_job_id = 1, pool_tasks = [queued_job boom_func []], pool_running = True\<rparr>,
                 example_world\<lparr>ticks := 1\<rparr>)"
    by (simp add: submit_eq Let_def WorkerPool_init_def example_world_def queued_job_def
        boom_func_def)
  have h4: "\<forall>a. PoolFails a \<notin> set [WorkerRuns, LoopRuns]"
    by simp
  show ?thesis
    using user_failure_absorbed
            [where call = example_env and f = boom_func and xs = "[]"
               and e = "ValueError ''boom''" and p = WorkerPool_init and w = example_world
               and evs = "[WorkerRuns, LoopRuns]",
             OF h1 h2 h3 h4]
    by (simp add: queued_job_def evaluate_job_populated Let_def submitted_eq join_def
        AsyncJobHandle_await_def WorkerPool_init_def example_world_def boom_func_def
        example_env_def)
qed

text \<open>
  The claim as written fails.  After \<open>submit(boom)\<close> on a new pool, the job that the
  worker sends back carries a \<open>JobFailedError\<close> and cannot be rebuilt by the pool: the
  success callback is never called, so nothing is scheduled on the loop, \<open>join()\<close>
  blocks and awaiting the handle stays suspended; neither gives \<open>None\<close>.  And when the
  callable raises \<open>SystemExit\<close>, the exception leaves \<open>evaluate_job\<close>.
\<close>

theorem failed_job_never_delivered_counterexample:
  "ready (loop (run example_env [WorkerRuns, LoopRuns]
                  (submitted WorkerPool_init boom_func [] example_world))) = []
   \<and> join (handle (run example_env [WorkerRuns, LoopRuns]
                      (submitted WorkerPool_init boom_func [] example_world)))
     = Blocked
   \<and> AsyncJobHandle_await
        (handle (run example_env [WorkerRuns, LoopRuns]
                   (submitted WorkerPool_init boom_func [] example_world)))
     = Blocked
   \<and> fst (snd (evaluate_job example_env (queued_job quit_func []) (example_world\<lparr>ticks := 1\<rparr>)))
     = Some SystemExit"
  by (simp add: submitted_eq evaluate_job_populated Let_def join_def AsyncJobHandle_await_def
      example_env_def WorkerPool_init_def example_world_def boom_func_def quit_func_def
      queued_job_def)

subsection \<open>A successful callable, end to end\<close>

text \<open>
  \<^bold>\<open>C2\<close> (what the code does at \<open>submit(add, 2, 3)\<close>).  On a new pool, once the pool has
  completed the task and the loop has run the scheduled callback, \<open>join()\<close> returns
  what \<open>evaluate_job\<close> returned, which is the job (whose \<open>result\<close> is \<open>5\<close>), and not \<open>5\<close>;
  awaiting the handle gives \<open>5\<close>.
\<close>

theorem join_returns_the_job:
  "join (handle (run example_env [WorkerRuns, LoopRuns]
                   (submitted WorkerPool_init add_func [IntV 2, IntV 3] example_world)))
     = Returned (JobV done_job)
   \<and> result done_job = IntV 5
   \<and> join (handle (run example_env [WorkerRuns, LoopRuns]
                   (submitted WorkerPool_init add_func [IntV 2, IntV 3] example_world)))
     \<noteq> Returned (IntV 5)
   \<and> AsyncJobHandle_await
        (handle (run example_env [WorkerRuns, LoopRuns]
                   (submitted WorkerPool_init add_func [IntV 2, IntV 3] example_world)))
     = Returned (IntV 5)"
  by (simp add: submitted_eq evaluate_job_populated Let_def pool_set_def
      AsyncJobHandle_on_success_eq join_def run_set_result_eq
      example_env_def WorkerPool_init_def example_world_def AsyncJobHandle_await_def
      done_job_def add_func_def)

subsection \<open>The stats of a submitted handle\<close>

lemma evaluate_job_keeps_stats:
  assumes "stats j \<noteq> None"
  shows "stats (fst (evaluate_job call j w)) \<noteq> None"
  using assms
  by (cases j) (auto simp add: evaluate_job_populated Let_def split: sum.split)

lemma evaluate_job_raises_only_base:
  assumes "evaluate_job call j w = (j', Some e, w')"
  shows "\<not> is_Exception e"
proof (cases j)
  case (Job i f xs st r e0)
  show ?thesis
  proof (cases st)
    case None
    with Job assms show ?thesis by (simp add: evaluate_job_unset)
  next
    case (Some a)
    with Job assms show ?thesis
      by (auto simp add: evaluate_job_populated Let_def split: sum.splits if_splits)
  qed
qed

lemma pool_set_Inr_populated:
  assumes "stats_populated s" and "stats j \<noteq> None"
  shows "stats_populated (pool_set (Inr j) s)"
  using assms
  by (simp add: stats_populated_def pool_set_def AsyncJobHandle_on_success_eq)

lemma pool_set_Inl_populated:
  assumes "stats_populated s" and "\<not> is_JobFailedError e"
  shows "stats_populated (pool_set (Inl e) s)"
  using assms
  by (simp add: stats_populated_def pool_set_def AsyncJobHandle_on_error_eq)

lemma taken_populated:
  assumes "stats_populated s"
  shows "stats_populated (s\<lparr>in_flight := None\<rparr>)"
    and "stats_populated (s\<lparr>in_flight := None, now := w\<rparr>)"
  using assms by (simp_all add: stats_populated_def)

lemma run_closure_populated:
  assumes "closure_ok c" and "stats (hjob h) \<noteq> None"
  shows "stats (hjob (fst (run_closure c h))) \<noteq> None"
proof (cases c)
  case (SetResult j)
  with assms show ?thesis by (auto simp add: run_set_result_eq)
next
  case (SetErr e)
  with assms show ?thesis by (simp add: run_set_err_other)
qed

lemma worker_populated:
  assumes "stats_populated s"
  shows "stats_populated (step call WorkerRuns s)"
proof (cases "in_flight s")
  case None
  with assms show ?thesis by simp
next
  case (Some j0)
  obtain j x w where r: "evaluate_job call j0 (now s) = (j, x, w)"
    by (cases "evaluate_job call j0 (now s)")
  have "stats j0 \<noteq> None"
    using assms Some by (simp add: stats_populated_def)
  then have j: "stats j \<noteq> None"
    using evaluate_job_keeps_stats [of j0 call "now s"] r by simp
  show ?thesis
  proof (cases x)
    case None
    with Some r j assms show ?thesis
      by (simp add: pool_set_Inr_populated taken_populated)
  next
    case (Some e)
    with r have "\<not> is_Exception e" by (simp add: evaluate_job_raises_only_base)
    with \<open>in_flight s = Some j0\<close> r Some assms show ?thesis
      by (simp add: taken_populated)
  qed
qed

lemma step_populated:
  assumes "stats_populated s" and "pool_level ev"
  shows "stats_populated (step call ev s)"
proof (cases ev)
  case WorkerRuns
  with assms(1) show ?thesis by (simp only: worker_populated)
next
  case (PoolFails e)
  with assms show ?thesis by (simp add: pool_set_Inl_populated)
next
  case LoopRuns
  show ?thesis
  proof (cases "ready (loop s)")
    case Nil
    with LoopRuns assms(1) show ?thesis by simp
  next
    case (Cons c cs)
    with assms(1) have "closure_ok c" and "stats (hjob (handle s)) \<noteq> None"
      by (simp_all add: stats_populated_def)
    then have "stats (hjob (fst (run_closure c (handle s)))) \<noteq> None"
      by (rule run_closure_populated)
    with LoopRuns Cons assms(1) show ?thesis
      by (simp add: stats_populated_def)
  qed
next
  case LoopCloses
  with assms(1) show ?thesis by (simp add: stats_populated_def)
qed

lemma run_populated:
  assumes "stats_populated s" and "list_all pool_level evs"
  shows "stats_populated (run call evs s)"
  using assms by (induction evs arbitrary: s) (simp_all add: step_populated)

lemma submitted_populated: "stats_populated (submitted p f xs w)"
  by (simp add: stats_populated_def submitted_eq Let_def)

text \<open>
  \<^bold>\<open>C10\<close>.  The handle that \<open>submit\<close> returns has the new \<open>JobStats\<close>, stamped with
  the time of submission.  After any sequence of worker runs, pool failures, loop steps
  and closings of the loop in which every failure of the pool is pool-level (its error
  is not a \<open>JobFailedError\<close>), reading \<open>stats\<close> on the handle gives a value: the assertion
  of \<open>JobHandle.stats\<close> does not fail.
\<close>

theorem submitted_handle_stats_never_fails:
  assumes "\<forall>e. PoolFails e \<in> set evs \<longrightarrow> \<not> is_JobFailedError e"
  shows "JobHandle_stats (fst (submit p f xs w))
           = Inr \<lparr>submitted_at = clock w (ticks w), started_at = None, finished_at = None\<rparr>
       \<and> (\<exists>st. JobHandle_stats (handle (run call evs (submitted p f xs w))) = Inr st)"
proof -
  have "list_all pool_level evs"
    unfolding list_all_iff
  proof
    fix ev assume "ev \<in> set evs"
    with assms show "pool_level ev" by (cases ev) auto
  qed
  then have "stats_populated (run call evs (submitted p f xs w))"
    by (simp add: run_populated submitted_populated)
  then show ?thesis
    by (auto simp add: stats_populated_def JobHandle_stats_def submit_eq Let_def)
qed

theorem submitted_handle_stats_never_fails_witness:
  "JobHandle_stats
     (handle (run example_env [WorkerRuns, PoolFails (MaybeEncodingError ''late''), LoopRuns]
                (submitted WorkerPool_init add_func [IntV 2, IntV 3] example_world)))
     = Inr \<lparr>submitted_at = 0, started_at = Some 1000, finished_at = Some 2000\<rparr>"
proof -
  have h: "\<forall>e. PoolFails e
                  \<in> set [WorkerRuns, PoolFails (MaybeEncodingError ''late''), LoopRuns]
             \<longrightarrow> \<not> is_JobFailedError e"
    by auto
  show ?thesis
    using submitted_handle_stats_never_fails
            [OF h, of WorkerPool_init add_func "[IntV 2, IntV 3]" example_world example_env]
    by (simp add: submitted_eq evaluate_job_populated Let_def pool_set_def
        AsyncJobHandle_on_success_eq run_set_result_eq
        example_env_def WorkerPool_init_def example_world_def JobHandle_stats_def
        add_func_def)
qed

end
